theory Spec2Isabelle
  imports Complex_Main "HOL-Library.Sublist"
begin

section \<open>JavaScript values held by the component\<close>

text \<open>
  The component \<^verbatim>\<open>VoiceBiomarkerApp\<close> (voice-biomarker.tsx) keeps in its
  \<^verbatim>\<open>analysis\<close> state whatever \<^verbatim>\<open>response.json()\<close> resolved to, and reads
  properties of it while rendering. A parsed JSON value is \<open>jsval\<close>; \<open>JUndefined\<close> is
  what reading a missing property gives. A number is modelled by its mathematical
  value (a finite IEEE double is a real number); an object by the list of its own
  properties, read with \<open>map_of\<close>.
\<close>

datatype jsval =
    JUndefined
  | JNull
  | JBool bool
  | JNum real
  | JStr string
  | JArr "jsval list"
  | JObj "(string \<times> jsval) list"

text \<open>
  What rendering can throw: a TypeError of the language, or React's error for a child it
  cannot render.
\<close>

datatype js_error = TypeError | InvalidChild

text \<open>ToBoolean: \<^verbatim>\<open>undefined\<close>, \<^verbatim>\<open>null\<close>, \<^verbatim>\<open>false\<close>, \<^verbatim>\<open>0\<close> and \<^verbatim>\<open>""\<close> are falsy.\<close>

fun truthy :: "jsval \<Rightarrow> bool" where
  "truthy JUndefined = False"
| "truthy JNull = False"
| "truthy (JBool b) = b"
| "truthy (JNum x) = (x \<noteq> 0)"
| "truthy (JStr s) = (s \<noteq> [])"
| "truthy (JArr vs) = True"
| "truthy (JObj kvs) = True"

text \<open>\<^verbatim>\<open>a || b\<close>, where \<open>b\<close> is a literal (evaluating it has no effect).\<close>

definition js_or :: "jsval \<Rightarrow> jsval \<Rightarrow> jsval" where
  "js_or a b = (if truthy a then a else b)"

text \<open>
  \<^verbatim>\<open>a.k\<close> for the property names the component reads. Reading a property of
  \<^verbatim>\<open>null\<close> or \<^verbatim>\<open>undefined\<close> throws; none of the names read is a property of a
  number, string, boolean or array, nor inherited by an object.
\<close>

definition get_field :: "(string \<times> jsval) list \<Rightarrow> string \<Rightarrow> jsval" where
  "get_field kvs k = (case map_of kvs k of None \<Rightarrow> JUndefined | Some v \<Rightarrow> v)"

fun member :: "jsval \<Rightarrow> string \<Rightarrow> js_error + jsval" where
  "member JUndefined k = Inl TypeError"
| "member JNull k = Inl TypeError"
| "member (JObj kvs) k = Inr (get_field kvs k)"
| "member v k = Inr JUndefined"

definition bindE :: "'e + 'a \<Rightarrow> ('a \<Rightarrow> 'e + 'b) \<Rightarrow> 'e + 'b" where
  "bindE m f = (case m of Inl e \<Rightarrow> Inl e | Inr x \<Rightarrow> f x)"

subsection \<open>Number.prototype.toFixed\<close>

definition digit_char :: "nat \<Rightarrow> char" where
  "digit_char d = ''0123456789'' ! d"

fun digits :: "nat \<Rightarrow> string" where
  "digits n = (if n < 10 then [digit_char n] else digits (n div 10) @ [digit_char (n mod 10)])"

declare digits.simps [simp del]

text \<open>
  \<^verbatim>\<open>x.toFixed(f)\<close> as ECMAScript defines it on the value of \<open>x\<close>: the sign apart,
  the integer \<open>n\<close> nearest to \<open>x * 10^f\<close> (the larger of two) is printed with \<open>f\<close> digits
  after the point. From \<open>10^21\<close> on the result is the runtime's exponential
  Number::toString, which the repository does not define: it is the parameter
  \<open>numberToString\<close>.
\<close>

definition toFixed :: "(real \<Rightarrow> string) \<Rightarrow> real \<Rightarrow> nat \<Rightarrow> string" where
  "toFixed numberToString x0 f =
     (let s = (if x0 < 0 then ''-'' else '''');
          x = (if x0 < 0 then - x0 else x0)
      in if x \<ge> 10 ^ 21 then s @ numberToString x
         else
           let n = nat \<lfloor>x * 10 ^ f + 1 / 2\<rfloor>;
               m = (if n = 0 then ''0'' else digits n)
           in if f \<noteq> 0 then
                let k = length m;
                    m' = (if k \<le> f then replicate (f + 1 - k) (CHR ''0'') @ m else m);
                    k' = (if k \<le> f then f + 1 else k)
                in s @ take (k' - f) m' @ ''.'' @ drop (k' - f) m'
              else s @ m)"

text \<open>
  \<^verbatim>\<open>v?.toFixed(f)\<close>: \<^verbatim>\<open>undefined\<close> when \<open>v\<close> is \<^verbatim>\<open>null\<close> or \<^verbatim>\<open>undefined\<close>, the
  string for a number, and a TypeError for every other JSON value (its \<^verbatim>\<open>toFixed\<close>
  is not a function).
\<close>

fun opt_toFixed :: "(real \<Rightarrow> string) \<Rightarrow> jsval \<Rightarrow> nat \<Rightarrow> js_error + jsval" where
  "opt_toFixed ts JUndefined f = Inr JUndefined"
| "opt_toFixed ts JNull f = Inr JUndefined"
| "opt_toFixed ts (JNum x) f = Inr (JStr (toFixed ts x f))"
| "opt_toFixed ts v f = Inl TypeError"

section \<open>Component state and handlers\<close>

text \<open>A \<^verbatim>\<open>Blob\<close> or \<^verbatim>\<open>File\<close>: a \<^verbatim>\<open>File\<close> has a name.\<close>

record blob =
  blob_name :: "string option"
  blob_type :: string
  blob_data :: "nat list"

text \<open>The five \<^verbatim>\<open>useState\<close> cells, with their initial values.\<close>

record app_state =
  isRecording :: bool
  audioBlob :: "blob option"
  analysis :: jsval
  loading :: bool
  error :: "string option"

definition initial_state :: app_state where
  "initial_state =
     \<lparr>isRecording = False, audioBlob = None, analysis = JNull, loading = False, error = None\<rparr>"

text \<open>\<^verbatim>\<open>s.startsWith(p)\<close>.\<close>

definition startsWith :: "string \<Rightarrow> string \<Rightarrow> bool" where
  "startsWith s p = (take (length p) s = p)"

text \<open>
  \<^verbatim>\<open>handleFileUpload\<close>: \<open>files\<close> is \<^verbatim>\<open>event.target.files\<close>; \<^verbatim>\<open>files[0]\<close> of an
  empty list is \<^verbatim>\<open>undefined\<close>, which takes the \<^verbatim>\<open>else\<close> branch.
\<close>

definition handleFileUpload :: "blob list \<Rightarrow> app_state \<Rightarrow> app_state" where
  "handleFileUpload files st =
     (case files of
        [] \<Rightarrow> st\<lparr>error := Some ''Please select a valid audio file''\<rparr>
      | file # rest \<Rightarrow>
          if startsWith (blob_type file) ''audio/''
          then st\<lparr>audioBlob := Some file, error := None\<rparr>
          else st\<lparr>error := Some ''Please select a valid audio file''\<rparr>)"

text \<open>
  The recorder's \<^verbatim>\<open>onstop\<close> handler: the chunks collected so far become one
  \<^verbatim>\<open>audio/wav\<close> blob.
\<close>

definition recorder_onstop :: "nat list list \<Rightarrow> app_state \<Rightarrow> app_state" where
  "recorder_onstop chunks st =
     st\<lparr>audioBlob := Some \<lparr>blob_name = None, blob_type = ''audio/wav'', blob_data = concat chunks\<rparr>\<rparr>"

subsection \<open>analyzeAudio\<close>



text \<open>
  What the awaited calls can do: \<^verbatim>\<open>fetch\<close> rejects with an error (its message), or
  resolves to a response with its \<^verbatim>\<open>ok\<close> flag; \<^verbatim>\<open>response.json()\<close> resolves to the
  parsed body or rejects with a SyntaxError (its message).
\<close>

datatype response_body = Parsed jsval | Malformed string

datatype fetch_outcome = Rejected string | Responded bool response_body


text \<open>Before the first \<^verbatim>\<open>await\<close>: \<^verbatim>\<open>setLoading(true); setError(null)\<close>.\<close>

definition analyzeAudio_begin :: "app_state \<Rightarrow> app_state" where
  "analyzeAudio_begin st = st\<lparr>loading := True, error := None\<rparr>"

text \<open>The \<^verbatim>\<open>try\<close> block: the message of what it throws, or the parsed result.\<close>

fun try_block :: "fetch_outcome \<Rightarrow> string + jsval" where
  "try_block (Rejected msg) = Inl msg"
| "try_block (Responded False b) = Inl ''Analysis failed''"
| "try_block (Responded True (Malformed msg)) = Inl msg"
| "try_block (Responded True (Parsed result)) = Inr result"

text \<open>After the awaits: \<^verbatim>\<open>setAnalysis\<close> or the \<^verbatim>\<open>catch\<close>, then the \<^verbatim>\<open>finally\<close>.\<close>

definition analyzeAudio_settle :: "fetch_outcome \<Rightarrow> app_state \<Rightarrow> app_state" where
  "analyzeAudio_settle outcome st =
     (case try_block outcome of
        Inr result \<Rightarrow> st\<lparr>analysis := result\<rparr>
      | Inl msg \<Rightarrow> st\<lparr>error := Some (''Error analyzing audio: '' @ msg)\<rparr>)
     \<lparr>loading := False\<rparr>"

definition analyzeAudio :: "fetch_outcome \<Rightarrow> app_state \<Rightarrow> app_state" where
  "analyzeAudio outcome st =
     (if audioBlob st = None then st
      else analyzeAudio_settle outcome (analyzeAudio_begin st))"

section \<open>Rendering the analysis\<close>

text \<open>
  The results section of the JSX. Each field of \<open>panel\<close> is the value of one JSX
  expression in braces, in the order of the source; \<open>insights\<close> is the value of
  \<^verbatim>\<open>analysis.health_insights && (...)\<close>: the falsy value itself, or the block showing
  the text.
\<close>

datatype insights_child = Falsy jsval | InsightsBlock jsval

record panel =
  cadence_text :: jsval
  pitch_text :: jsval
  coughs :: jsval
  sneezes :: jsval
  pitch_variation :: jsval
  tone :: jsval
  rate :: jsval
  insights :: insights_child

datatype results_section = NoAnalysisYet | Results panel

text \<open>
  The component function evaluates the JSX expressions first; a \<^verbatim>\<open>toFixed\<close> that is
  not a function throws there.
\<close>

definition panel_values :: "(real \<Rightarrow> string) \<Rightarrow> jsval \<Rightarrow> js_error + panel" where
  "panel_values ts a =
     bindE (member a ''cadence'') (\<lambda>c. bindE (opt_toFixed ts c 1) (\<lambda>ct.
     bindE (member a ''pitch_mean'') (\<lambda>pm. bindE (opt_toFixed ts pm 0) (\<lambda>pt.
     bindE (member a ''cough_count'') (\<lambda>cc.
     bindE (member a ''sneeze_count'') (\<lambda>sc.
     bindE (member a ''pitch_std'') (\<lambda>ps. bindE (opt_toFixed ts ps 1) (\<lambda>pv.
     bindE (member a ''tone_quality'') (\<lambda>tq.
     bindE (member a ''speech_rate'') (\<lambda>sr.
     bindE (member a ''health_insights'') (\<lambda>hi.
       Inr \<lparr>cadence_text = js_or ct (JStr ''N/A''),
            pitch_text = js_or pt (JStr ''N/A''),
            coughs = js_or cc (JNum 0),
            sneezes = js_or sc (JNum 0),
            pitch_variation = js_or pv (JStr ''N/A''),
            tone = js_or tq (JStr ''Normal''),
            rate = js_or sr (JStr ''N/A''),
            insights = (if truthy hi then InsightsBlock hi else Falsy hi)\<rparr>)))))))))))"

text \<open>
  React then renders the values as children: a string or number as text, \<^verbatim>\<open>null\<close>,
  \<^verbatim>\<open>undefined\<close> and booleans as nothing, an array as its elements, and it throws on an
  object ("Objects are not valid as a React child").
\<close>

fun valid_child :: "jsval \<Rightarrow> bool" where
  "valid_child (JObj kvs) = False"
| "valid_child (JArr vs) = list_all valid_child vs"
| "valid_child v = True"

fun insights_value :: "insights_child \<Rightarrow> jsval" where
  "insights_value (Falsy v) = v"
| "insights_value (InsightsBlock v) = v"

definition valid_children :: "panel \<Rightarrow> bool" where
  "valid_children p =
     (valid_child (cadence_text p) \<and> valid_child (pitch_text p) \<and>
      valid_child (coughs p) \<and> valid_child (sneezes p) \<and>
      valid_child (pitch_variation p) \<and> valid_child (tone p) \<and>
      valid_child (rate p) \<and> valid_child (insights_value (insights p)))"

definition render_results :: "(real \<Rightarrow> string) \<Rightarrow> jsval \<Rightarrow> js_error + panel" where
  "render_results ts a =
     bindE (panel_values ts a) (\<lambda>p. if valid_children p then Inr p else Inl InvalidChild)"

text \<open>\<^verbatim>\<open>analysis ? (results) : (placeholder)\<close>.\<close>

definition render_analysis :: "(real \<Rightarrow> string) \<Rightarrow> jsval \<Rightarrow> js_error + results_section" where
  "render_analysis ts a =
     (if truthy a then bindE (render_results ts a) (\<lambda>p. Inr (Results p))
      else Inr NoAnalysisYet)"

section \<open>The analysis record\<close>

text \<open>
  Modelled from the spec: the field names of the JSON shape that section 6 fixes for an
  analysis result; the shape is a type declaration of the engine, missing with it.
\<close>

definition result_fields :: "string list" where
  "result_fields =
     [''cadence'', ''pitch_mean'', ''pitch_std'', ''cough_count'', ''sneeze_count'',
      ''tone_quality'', ''speech_rate'', ''health_insights'']"

text \<open>Modelled from the spec: the field type \<^verbatim>\<open>number|null\<close> of section 6.\<close>

fun number_or_null :: "jsval \<Rightarrow> bool" where
  "number_or_null JNull = True"
| "number_or_null (JNum x) = True"
| "number_or_null v = False"

text \<open>Modelled from the spec: the field type \<^verbatim>\<open>integer\<close> of section 6.\<close>

fun is_integer :: "jsval \<Rightarrow> bool" where
  "is_integer (JNum x) = (of_int \<lfloor>x\<rfloor> = x)"
| "is_integer v = False"

text \<open>Modelled from the spec: the field type \<^verbatim>\<open>string\<close> of section 6.\<close>

fun is_string :: "jsval \<Rightarrow> bool" where
  "is_string (JStr s) = True"
| "is_string v = False"

text \<open>
  Modelled from the spec: the JSON shape of section 6, an object that has the eight
  fields with their types and no other.
\<close>

fun analysis_shape :: "jsval \<Rightarrow> bool" where
  "analysis_shape (JObj kvs) =
     (list_all (\<lambda>k. k \<in> set result_fields) (map fst kvs) \<and>
      number_or_null (get_field kvs ''cadence'') \<and>
      number_or_null (get_field kvs ''pitch_mean'') \<and>
      number_or_null (get_field kvs ''pitch_std'') \<and>
      is_integer (get_field kvs ''cough_count'') \<and>
      is_integer (get_field kvs ''sneeze_count'') \<and>
      is_string (get_field kvs ''tone_quality'') \<and>
      is_string (get_field kvs ''speech_rate'') \<and>
      is_string (get_field kvs ''health_insights''))"
| "analysis_shape v = False"

text \<open>The own property names of an object.\<close>

fun json_keys :: "jsval \<Rightarrow> string list" where
  "json_keys (JObj kvs) = map fst kvs"
| "json_keys v = []"

section \<open>The analysis engine\<close>

text \<open>
  The engine behind \<^verbatim>\<open>/api/analyze-voice\<close> (api/analyze-voice.py in the project
  layout) is not among the sources. Every definition of this section is modelled from
  the specification, and says from which part.
\<close>

text \<open>
  Modelled from the spec: the AnalysisResult record of section 3, missing with the
  engine, with the field names and types of the JSON shape of section 6; \<open>None\<close> is
  "unavailable".
\<close>

record analysis_result =
  cadence :: "real option"
  pitch_mean :: "real option"
  pitch_std :: "real option"
  cough_count :: int
  sneeze_count :: int
  tone_quality :: string
  speech_rate :: string
  health_insights :: string

text \<open>
  Modelled from the spec: the serialization of a nullable number (section 6), missing
  with the engine; an unavailable measurement is \<^verbatim>\<open>null\<close>.
\<close>

fun number_json :: "real option \<Rightarrow> jsval" where
  "number_json None = JNull"
| "number_json (Some x) = JNum x"

text \<open>
  Modelled from the spec: the serialized form of the record (section 6), missing with
  the engine.
\<close>

definition to_json :: "analysis_result \<Rightarrow> jsval" where
  "to_json r =
     JObj [(''cadence'', number_json (cadence r)),
           (''pitch_mean'', number_json (pitch_mean r)),
           (''pitch_std'', number_json (pitch_std r)),
           (''cough_count'', JNum (of_int (cough_count r))),
           (''sneeze_count'', JNum (of_int (sneeze_count r))),
           (''tone_quality'', JStr (tone_quality r)),
           (''speech_rate'', JStr (speech_rate r)),
           (''health_insights'', JStr (health_insights r))]"

text \<open>Modelled from the spec: FrameFeatures of the data model (section 3), missing with the engine.\<close>

record frame_features =
  energy :: real
  isVoiced :: bool
  f0 :: "real option"
  spectralFlatness :: real

text \<open>Modelled from the spec: the classification of an Event (section 3), missing with the engine.\<close>

datatype event_class = Cough | Sneeze

text \<open>Modelled from the spec: Event of the data model (section 3), missing with the engine.\<close>

record event =
  startTime :: real
  durationSec :: real
  peakEnergy :: real
  spectralCentroid :: real
  classification :: event_class

text \<open>
  Modelled from the spec: the error kinds of section 7 that end an analysis without a
  result, missing with the engine (SilentInput does not: it yields a result).
\<close>

datatype engine_error = UnsupportedFormat | ProcessingTimeout | InternalComputationError

text \<open>Modelled from the spec: Waveform of the data model (section 3), missing with the engine.\<close>

record waveform =
  samples :: "real list"
  sample_rate :: nat

text \<open>
  Modelled from the spec: the numeric measurements an insight can be keyed on (sections
  4.6 and 6), missing with the engine.
\<close>

datatype measure = Cadence | PitchMean | PitchStd

text \<open>
  Modelled from the spec: a threshold of section 4.6, missing with the engine, on one
  numeric field of the result: a count is elevated above a number of events, a
  measurement lies above or below a bound ("elevated cough_count, unusually fast
  cadence").
\<close>

datatype trigger =
    CountAbove event_class nat
  | MeasureAbove measure real
  | MeasureBelow measure real

text \<open>
  Modelled from the spec: the constants that section 9 asks to keep in a configuration
  structure, missing with the engine. The specification fixes none of their values.
  The insight templates (section 4.6) are a baseline text and clauses, each with the
  threshold that selects it.
\<close>

record engine_config =
  min_sample_rate :: nat
  peak_target :: real
  slow_below :: real
  fast_above :: real
  stable_below :: real
  variable_above :: real
  baseline_insight :: string
  insight_clauses :: "(trigger \<times> string) list"

text \<open>
  Modelled from the spec: the three stages, missing with the engine, whose algorithms
  the specification describes without fixing them (framing with per-frame energy,
  voicing and f0 of sections 4.1 and 4.2; the cadence estimate of 4.3; the event
  detector of 4.4). They are parameters of the engine.
\<close>

record engine_stages =
  frame_analysis :: "real list \<Rightarrow> nat \<Rightarrow> frame_features list"
  cadence_estimator :: "frame_features list \<Rightarrow> real option"
  event_detector :: "frame_features list \<Rightarrow> event list"

text \<open>Modelled from the spec: the arithmetic mean (sections 4.1 and 4.2), missing with the engine.\<close>

definition mean :: "real list \<Rightarrow> real" where
  "mean xs = sum_list xs / real (length xs)"

text \<open>
  Modelled from the spec: "remove DC bias (subtract mean)" of section 4.1, missing with
  the engine. The mean of no samples is not evaluated.
\<close>

definition remove_dc :: "real list \<Rightarrow> real list" where
  "remove_dc xs = (if xs = [] then [] else map (\<lambda>x. x - mean xs) xs)"

text \<open>
  Modelled from the spec: the peak amplitude that section 4.1 normalizes, missing with
  the engine; a peak of zero is the SilentInput condition.
\<close>

definition peak_amplitude :: "real list \<Rightarrow> real" where
  "peak_amplitude xs = fold max (map abs xs) 0"

text \<open>
  Modelled from the spec: the f0 values of the voiced frames (section 4.2), missing with
  the engine; unvoiced frames are excluded, not counted as 0.
\<close>

definition voiced_f0 :: "frame_features list \<Rightarrow> real list" where
  "voiced_f0 fs = List.map_filter (\<lambda>fr. if isVoiced fr then f0 fr else None) fs"

text \<open>Modelled from the spec: the sample standard deviation (section 4.2), missing with the engine.\<close>

definition sample_std :: "real list \<Rightarrow> real" where
  "sample_std xs = sqrt (sum_list (map (\<lambda>x. (x - mean xs)\<^sup>2) xs) / real (length xs - 1))"

text \<open>
  Modelled from the spec: pitch_mean of section 4.2, missing with the engine;
  unavailable when there is no voiced frame.
\<close>

definition pitch_mean_of :: "real list \<Rightarrow> real option" where
  "pitch_mean_of xs = (if xs = [] then None else Some (mean xs))"

text \<open>
  Modelled from the spec: pitch_std of section 4.2, missing with the engine;
  unavailable when there is no voiced frame. The sample standard deviation of a single
  value divides by zero: by section 7 a numeric failure of a branch leaves its field
  unavailable.
\<close>

definition pitch_std_of :: "real list \<Rightarrow> real option" where
  "pitch_std_of xs = (if length xs < 2 then None else Some (sample_std xs))"

text \<open>
  Modelled from the spec: the counts of section 4.4, missing with the engine, "simple
  tallies by classification".
\<close>

definition tally :: "event_class \<Rightarrow> event list \<Rightarrow> int" where
  "tally c evs = int (length (filter (\<lambda>e. classification e = c) evs))"

text \<open>
  Modelled from the spec: the absolute frame-to-frame changes of f0 (section 4.5),
  missing with the engine.
\<close>

fun f0_changes :: "real list \<Rightarrow> real list" where
  "f0_changes (x # y # rest) = abs (y - x) # f0_changes (y # rest)"
| "f0_changes xs = []"

text \<open>
  Modelled from the spec: relative pitch jitter (section 4.5), missing with the engine:
  "mean absolute frame-to-frame f0 change divided by pitch_mean". It is used for two
  values or more, which lie in the voice band of section 4.2, so the mean is positive.
\<close>

definition jitter :: "real list \<Rightarrow> real" where
  "jitter xs = mean (f0_changes xs) / mean xs"

text \<open>
  Modelled from the spec: the tone label of section 4.5, missing with the engine. With
  fewer than two f0 values there is no change to measure and the label is the baseline
  "Normal" (section 8).
\<close>

definition tone_label :: "engine_config \<Rightarrow> real list \<Rightarrow> string" where
  "tone_label cfg xs =
     (if length xs < 2 then ''Normal''
      else if jitter xs < stable_below cfg then ''Stable''
      else if jitter xs > variable_above cfg then ''Variable''
      else ''Normal'')"

text \<open>
  Modelled from the spec: the speech-rate label of section 4.5, missing with the engine;
  an unavailable cadence has the label "unavailable" (section 8).
\<close>

fun rate_label :: "engine_config \<Rightarrow> real option \<Rightarrow> string" where
  "rate_label cfg None = ''unavailable''"
| "rate_label cfg (Some wpm) =
     (if wpm < slow_below cfg then ''Slow''
      else if wpm > fast_above cfg then ''Fast''
      else ''Normal'')"

text \<open>Modelled from the spec: the measurement a threshold is about (section 4.6), missing with the engine.\<close>

fun measure_value :: "measure \<Rightarrow> real option \<Rightarrow> real option \<Rightarrow> real option \<Rightarrow> real option" where
  "measure_value Cadence cad pm ps = cad"
| "measure_value PitchMean cad pm ps = pm"
| "measure_value PitchStd cad pm ps = ps"

text \<open>
  Modelled from the spec: whether a threshold is crossed (section 4.6), missing with the
  engine. For an unavailable measurement it is not: "the corresponding insight clause
  is omitted, not fabricated".
\<close>

fun crossed ::
  "trigger \<Rightarrow> real option \<Rightarrow> real option \<Rightarrow> real option \<Rightarrow> int \<Rightarrow> int \<Rightarrow> bool" where
  "crossed (CountAbove Cough n) cad pm ps n_coughs n_sneezes = (int n < n_coughs)"
| "crossed (CountAbove Sneeze n) cad pm ps n_coughs n_sneezes = (int n < n_sneezes)"
| "crossed (MeasureAbove m t) cad pm ps n_coughs n_sneezes =
     (case measure_value m cad pm ps of None \<Rightarrow> False | Some x \<Rightarrow> t < x)"
| "crossed (MeasureBelow m t) cad pm ps n_coughs n_sneezes =
     (case measure_value m cad pm ps of None \<Rightarrow> False | Some x \<Rightarrow> x < t)"

text \<open>Modelled from the spec: the selected clauses put together (section 4.6), missing with the engine.\<close>

fun join_clauses :: "string list \<Rightarrow> string" where
  "join_clauses [] = []"
| "join_clauses [t] = t"
| "join_clauses (t # rest) = t @ '' '' @ join_clauses rest"

text \<open>
  Modelled from the spec: the health_insights text (section 4.6), missing with the
  engine: "template selection keyed on which thresholds were crossed", "a pure function
  of the numeric fields"; the baseline text when no threshold is crossed.
\<close>

definition insight_text ::
  "engine_config \<Rightarrow> real option \<Rightarrow> real option \<Rightarrow> real option \<Rightarrow> int \<Rightarrow> int \<Rightarrow> string" where
  "insight_text cfg cad pm ps n_coughs n_sneezes =
     (let selected = filter (\<lambda>c. crossed (fst c) cad pm ps n_coughs n_sneezes) (insight_clauses cfg)
      in if selected = [] then baseline_insight cfg else join_clauses (map snd selected))"

text \<open>
  Modelled from the spec: the Report Assembler of section 4.6, missing with the engine.
  It combines the outputs of the other components into one record; an unavailable
  field stays unavailable.
\<close>

definition assemble ::
  "engine_config \<Rightarrow> real option \<Rightarrow> real list \<Rightarrow> event list \<Rightarrow> analysis_result" where
  "assemble cfg cad f0s evs =
     \<lparr>cadence = cad,
      pitch_mean = pitch_mean_of f0s,
      pitch_std = pitch_std_of f0s,
      cough_count = tally Cough evs,
      sneeze_count = tally Sneeze evs,
      tone_quality = tone_label cfg f0s,
      speech_rate = rate_label cfg cad,
      health_insights =
        insight_text cfg cad (pitch_mean_of f0s) (pitch_std_of f0s)
          (tally Cough evs) (tally Sneeze evs)\<rparr>"

text \<open>
  Modelled from the spec: the frames the engine analyses (section 4.1), missing with the
  engine: those of the signal with its DC bias removed and its peak normalized to the
  target. A silent input has none.
\<close>

definition engine_frames :: "engine_stages \<Rightarrow> engine_config \<Rightarrow> waveform \<Rightarrow> frame_features list" where
  "engine_frames stages cfg w =
     (let xs = remove_dc (samples w); p = peak_amplitude xs
      in if p = 0 then []
         else frame_analysis stages (map (\<lambda>x. x * peak_target cfg / p) xs) (sample_rate w))"

text \<open>
  Modelled from the spec: the engine as a whole (sections 2, 4.1 and 7), missing from
  the sources. A sample rate below the supported minimum is rejected; a silent input
  ends the analysis with a valid result assembled from no measurements; otherwise the
  frames go to the three independent stages and their outputs to the assembler. The
  processing budget of section 5 is a matter of running time and has no counterpart
  here.
\<close>

definition analyze_voice ::
  "engine_stages \<Rightarrow> engine_config \<Rightarrow> waveform \<Rightarrow> engine_error + analysis_result" where
  "analyze_voice stages cfg w =
     (if sample_rate w < min_sample_rate cfg then Inl UnsupportedFormat
      else if peak_amplitude (remove_dc (samples w)) = 0 then Inr (assemble cfg None [] [])
      else
        let fs = engine_frames stages cfg w
        in Inr (assemble cfg (cadence_estimator stages fs) (voiced_f0 fs)
                  (event_detector stages fs)))"

section \<open>Examples\<close>

text \<open>
  A runtime for the examples: none of them prints a number that reaches \<open>10^21\<close>, so
  the exponential form is never asked for.
\<close>

definition example_toString :: "real \<Rightarrow> string" where
  "example_toString x = digits (nat \<lfloor>x\<rfloor>)"

text \<open>An uploaded Ogg file, and the state with a recording made and an earlier result shown.\<close>

definition example_upload :: blob where
  "example_upload = \<lparr>blob_name = Some ''voice.ogg'', blob_type = ''audio/ogg'', blob_data = [79, 103, 103, 83]\<rparr>"

definition example_result :: jsval where
  "example_result =
     JObj [(''cadence'', JNull), (''pitch_mean'', JNum 0), (''pitch_std'', JNum 0),
           (''cough_count'', JNum 0), (''sneeze_count'', JNum 0),
           (''tone_quality'', JStr ''Normal''), (''speech_rate'', JStr ''unavailable''),
           (''health_insights'', JStr ''No notable findings.'')]"



definition example_state :: app_state where
  "example_state = (recorder_onstop [[82, 73], [70, 70]] initial_state)\<lparr>analysis := example_result\<rparr>"

text \<open>An engine configuration and stages that find no voiced frame, no syllable and no event.\<close>

definition example_config :: engine_config where
  "example_config =
     \<lparr>min_sample_rate = 4000, peak_target = 1, slow_below = 110, fast_above = 160,
      stable_below = 1 / 100, variable_above = 1 / 20,
      baseline_insight = ''No notable findings.'',
      insight_clauses =
        [(CountAbove Cough 3, ''Frequent coughing detected.''),
         (MeasureAbove Cadence 160, ''Speech is unusually fast.'')]\<rparr>"

definition example_stages :: engine_stages where
  "example_stages =
     \<lparr>frame_analysis =
        (\<lambda>xs rate. map (\<lambda>x. \<lparr>energy = x * x, isVoiced = False, f0 = None, spectralFlatness = 1\<rparr>) xs),
      cadence_estimator = (\<lambda>fs. None),
      event_detector = (\<lambda>fs. [])\<rparr>"

section \<open>Properties\<close>

subsection \<open>Helper facts\<close>

lemma toFixed_zero_1: "toFixed ts 0 1 = ''0.0''" by code_simp
lemma toFixed_zero_Suc: "toFixed ts 0 (Suc 0) = ''0.0''"
  using toFixed_zero_1 [of ts] by simp
lemma toFixed_zero_0: "toFixed ts 0 0 = ''0''" by code_simp

text \<open>
  Below \<open>10^21\<close> the text of \<^verbatim>\<open>toFixed\<close> is never empty, so it is what the panel shows;
  from \<open>10^21\<close> on it is the runtime's exponential form.
\<close>

lemma digits_nonempty: "digits n \<noteq> []"
  by (subst digits.simps) simp

lemma toFixed_nonempty:
  assumes "\<bar>x\<bar> < 10 ^ 21"
  shows "toFixed ts x f \<noteq> []"
proof -
  have small: "\<not> 10 ^ 21 \<le> (if x < 0 then - x else x)"
    using assms by (simp add: abs_if split: if_splits)
  show ?thesis
    unfolding toFixed_def Let_def using small
    by (simp add: digits_nonempty)
qed

lemma startsWith_prefix: "startsWith s p \<longleftrightarrow> prefix p s"
  unfolding startsWith_def
  by (metis append_eq_conv_conj prefix_def append_take_drop_id)

lemma shape_cases:
  assumes "analysis_shape a"
  obtains kvs where "a = JObj kvs"
  using assms by (cases a) auto

lemma panel_values_obj:
  assumes "opt_toFixed ts (get_field kvs ''cadence'') 1 = Inr ct"
    and "opt_toFixed ts (get_field kvs ''pitch_mean'') 0 = Inr pt"
    and "opt_toFixed ts (get_field kvs ''pitch_std'') 1 = Inr pv"
  shows "panel_values ts (JObj kvs) =
     Inr \<lparr>cadence_text = js_or ct (JStr ''N/A''),
          pitch_text = js_or pt (JStr ''N/A''),
          coughs = js_or (get_field kvs ''cough_count'') (JNum 0),
          sneezes = js_or (get_field kvs ''sneeze_count'') (JNum 0),
          pitch_variation = js_or pv (JStr ''N/A''),
          tone = js_or (get_field kvs ''tone_quality'') (JStr ''Normal''),
          rate = js_or (get_field kvs ''speech_rate'') (JStr ''N/A''),
          insights = (if truthy (get_field kvs ''health_insights'')
                      then InsightsBlock (get_field kvs ''health_insights'')
                      else Falsy (get_field kvs ''health_insights''))\<rparr>"
  unfolding panel_values_def using assms by (simp add: bindE_def)

lemma valid_child_js_or: "valid_child a \<Longrightarrow> valid_child b \<Longrightarrow> valid_child (js_or a b)"
  by (simp add: js_or_def)

lemma opt_toFixed_valid: "opt_toFixed ts v f = Inr t \<Longrightarrow> valid_child t"
  by (cases v) auto

lemma is_integer_valid: "is_integer v \<Longrightarrow> valid_child v"
  by (cases v) simp_all

lemma is_string_valid: "is_string v \<Longrightarrow> valid_child v"
  by (cases v) simp_all

lemma render_results_obj:
  assumes "opt_toFixed ts (get_field kvs ''cadence'') 1 = Inr ct"
    and "opt_toFixed ts (get_field kvs ''pitch_mean'') 0 = Inr pt"
    and "opt_toFixed ts (get_field kvs ''pitch_std'') 1 = Inr pv"
    and "valid_child (get_field kvs ''cough_count'')"
    and "valid_child (get_field kvs ''sneeze_count'')"
    and "valid_child (get_field kvs ''tone_quality'')"
    and "valid_child (get_field kvs ''speech_rate'')"
    and "valid_child (get_field kvs ''health_insights'')"
  shows "render_results ts (JObj kvs) =
     Inr \<lparr>cadence_text = js_or ct (JStr ''N/A''),
          pitch_text = js_or pt (JStr ''N/A''),
          coughs = js_or (get_field kvs ''cough_count'') (JNum 0),
          sneezes = js_or (get_field kvs ''sneeze_count'') (JNum 0),
          pitch_variation = js_or pv (JStr ''N/A''),
          tone = js_or (get_field kvs ''tone_quality'') (JStr ''Normal''),
          rate = js_or (get_field kvs ''speech_rate'') (JStr ''N/A''),
          insights = (if truthy (get_field kvs ''health_insights'')
                      then InsightsBlock (get_field kvs ''health_insights'')
                      else Falsy (get_field kvs ''health_insights''))\<rparr>"
proof -
  have "valid_child (js_or ct (JStr ''N/A''))" "valid_child (js_or pt (JStr ''N/A''))"
    "valid_child (js_or pv (JStr ''N/A''))"
    using assms(1-3) by (simp_all add: valid_child_js_or opt_toFixed_valid)
  moreover have "valid_child (js_or (get_field kvs ''cough_count'') (JNum 0))"
    "valid_child (js_or (get_field kvs ''sneeze_count'') (JNum 0))"
    "valid_child (js_or (get_field kvs ''tone_quality'') (JStr ''Normal''))"
    "valid_child (js_or (get_field kvs ''speech_rate'') (JStr ''N/A''))"
    using assms(4-7) by (simp_all add: valid_child_js_or)
  ultimately show ?thesis
    unfolding render_results_def panel_values_obj [OF assms(1-3)]
    using assms(8) by (simp add: bindE_def valid_children_def)
qed

lemma opt_toFixed_number_or_null:
  assumes "number_or_null v"
  shows "\<exists>t. opt_toFixed ts v f = Inr t \<and> (v = JNull \<longrightarrow> t = JUndefined) \<and>
     (\<forall>x. v = JNum x \<longrightarrow> t = JStr (toFixed ts x f))"
  using assms by (cases v) simp_all

lemma shape_fields:
  assumes "analysis_shape (JObj kvs)"
  shows "number_or_null (get_field kvs ''cadence'')"
    and "number_or_null (get_field kvs ''pitch_mean'')"
    and "number_or_null (get_field kvs ''pitch_std'')"
    and "valid_child (get_field kvs ''cough_count'')"
    and "valid_child (get_field kvs ''sneeze_count'')"
    and "valid_child (get_field kvs ''tone_quality'')"
    and "valid_child (get_field kvs ''speech_rate'')"
    and "valid_child (get_field kvs ''health_insights'')"
  using assms by (simp_all add: is_integer_valid is_string_valid)

subsection \<open>analyzeAudio on failure\<close>

lemma analyzeAudio_settle_failure:
  assumes "try_block outcome = Inl msg"
  shows "analyzeAudio_settle outcome s =
     s\<lparr>error := Some (''Error analyzing audio: '' @ msg), loading := False\<rparr>"
  using assms by (simp add: analyzeAudio_settle_def)

lemma analyzeAudio_settle_loading: "loading (analyzeAudio_settle outcome s) = False"
  by (simp add: analyzeAudio_settle_def split: sum.splits)

text \<open>
  C9. When \<^verbatim>\<open>analyzeAudio\<close> runs with an audio blob present and \<^verbatim>\<open>fetch\<close> rejects or
  the response is not ok, the error state becomes a message and the analysis state
  keeps its previous value; whatever the outcome, \<^verbatim>\<open>loading\<close> is false at the end.
\<close>

theorem analyzeAudio_failure_keeps_analysis:
  assumes "audioBlob st = Some b"
  shows "error (analyzeAudio (Rejected msg) st) = Some (''Error analyzing audio: '' @ msg) \<and>
     analysis (analyzeAudio (Rejected msg) st) = analysis st \<and>
     error (analyzeAudio (Responded False body) st) = Some ''Error analyzing audio: Analysis failed'' \<and>
     analysis (analyzeAudio (Responded False body) st) = analysis st \<and>
     loading (analyzeAudio outcome st) = False"
proof -
  have run: "analyzeAudio out st = analyzeAudio_settle out (analyzeAudio_begin st)" for out
    using assms by (simp add: analyzeAudio_def)
  have "try_block (Rejected msg) = Inl msg" by simp
  note rej = analyzeAudio_settle_failure [OF this]
  have "try_block (Responded False body) = Inl ''Analysis failed''" by simp
  note bad = analyzeAudio_settle_failure [OF this]
  show ?thesis
    by (simp add: run rej bad analyzeAudio_settle_loading analyzeAudio_begin_def)
qed

theorem analyzeAudio_failure_keeps_analysis_witness:
  "audioBlob example_state = Some \<lparr>blob_name = None, blob_type = ''audio/wav'', blob_data = [82, 73, 70, 70]\<rparr> \<and>
   error (analyzeAudio (Rejected ''Failed to fetch'') example_state) =
     Some ''Error analyzing audio: Failed to fetch'' \<and>
   analysis (analyzeAudio (Rejected ''Failed to fetch'') example_state) = example_result \<and>
   error (analyzeAudio (Responded False (Parsed JNull)) example_state) =
     Some ''Error analyzing audio: Analysis failed'' \<and>
   analysis (analyzeAudio (Responded False (Parsed JNull)) example_state) = example_result \<and>
   loading (analyzeAudio (Responded True (Parsed JNull)) example_state) = False"
proof -
  have b: "audioBlob example_state =
      Some \<lparr>blob_name = None, blob_type = ''audio/wav'', blob_data = [82, 73, 70, 70]\<rparr>"
    by (simp add: example_state_def recorder_onstop_def)
  have a: "analysis example_state = example_result"
    by (simp add: example_state_def)
  from analyzeAudio_failure_keeps_analysis [OF b, of "''Failed to fetch''" "Parsed JNull" "Responded True (Parsed JNull)"]
  show ?thesis using a b by simp
qed

subsection \<open>handleFileUpload\<close>

text \<open>
  C10. \<^verbatim>\<open>handleFileUpload\<close> accepts the selected file exactly when its MIME type
  starts with \<^verbatim>\<open>audio/\<close>, whatever follows the slash: it then stores the file in
  \<^verbatim>\<open>audioBlob\<close> and clears the error; otherwise it sets the error message
  "Please select a valid audio file" and leaves \<^verbatim>\<open>audioBlob\<close> as it was.
\<close>

theorem handleFileUpload_accepts_audio_types:
  "(startsWith (blob_type file) ''audio/'' \<longrightarrow>
      handleFileUpload (file # rest) st = st\<lparr>audioBlob := Some file, error := None\<rparr>) \<and>
   (\<not> startsWith (blob_type file) ''audio/'' \<longrightarrow>
      handleFileUpload (file # rest) st = st\<lparr>error := Some ''Please select a valid audio file''\<rparr> \<and>
      audioBlob (handleFileUpload (file # rest) st) = audioBlob st)"
  by (simp add: handleFileUpload_def)

theorem handleFileUpload_accepts_audio_types_witness:
  "startsWith (blob_type example_upload) ''audio/'' \<and>
   handleFileUpload [example_upload] example_state =
     example_state\<lparr>audioBlob := Some example_upload, error := None\<rparr> \<and>
   \<not> startsWith (blob_type (example_upload\<lparr>blob_type := ''text/plain''\<rparr>)) ''audio/'' \<and>
   handleFileUpload [example_upload\<lparr>blob_type := ''text/plain''\<rparr>] example_state =
     example_state\<lparr>error := Some ''Please select a valid audio file''\<rparr>"
proof -
  have yes: "startsWith (blob_type example_upload) ''audio/''"
    by (simp add: startsWith_def example_upload_def)
  have no: "\<not> startsWith (blob_type (example_upload\<lparr>blob_type := ''text/plain''\<rparr>)) ''audio/''"
    by (simp add: startsWith_def)
  from handleFileUpload_accepts_audio_types [of example_upload "[]" example_state]
    handleFileUpload_accepts_audio_types [of "example_upload\<lparr>blob_type := ''text/plain''\<rparr>" "[]" example_state]
  show ?thesis using yes no by blast
qed

subsection \<open>Null and zero in the results panel\<close>

text \<open>
  C2. For an analysis record of the section-6 shape the panel tells \<^verbatim>\<open>null\<close> from
  \<^verbatim>\<open>0\<close>: a \<^verbatim>\<open>null\<close> cadence, pitch_mean or pitch_std is shown as "N/A", the number
  \<^verbatim>\<open>0\<close> in those fields is shown as a number ("0.0", "0", "0.0"), and a cough_count
  or sneeze_count of \<^verbatim>\<open>0\<close> is shown as \<^verbatim>\<open>0\<close>.
\<close>

theorem null_and_zero_rendered_apart:
  assumes "analysis_shape a"
  shows "\<exists>p. render_analysis ts a = Inr (Results p) \<and>
     (member a ''cadence'' = Inr JNull \<longrightarrow> cadence_text p = JStr ''N/A'') \<and>
     (member a ''cadence'' = Inr (JNum 0) \<longrightarrow> cadence_text p = JStr ''0.0'') \<and>
     (member a ''pitch_mean'' = Inr JNull \<longrightarrow> pitch_text p = JStr ''N/A'') \<and>
     (member a ''pitch_mean'' = Inr (JNum 0) \<longrightarrow> pitch_text p = JStr ''0'') \<and>
     (member a ''pitch_std'' = Inr JNull \<longrightarrow> pitch_variation p = JStr ''N/A'') \<and>
     (member a ''pitch_std'' = Inr (JNum 0) \<longrightarrow> pitch_variation p = JStr ''0.0'') \<and>
     (member a ''cough_count'' = Inr (JNum 0) \<longrightarrow> coughs p = JNum 0) \<and>
     (member a ''sneeze_count'' = Inr (JNum 0) \<longrightarrow> sneezes p = JNum 0)"
proof -
  from assms obtain kvs where a: "a = JObj kvs" by (rule shape_cases)
  have c: "number_or_null (get_field kvs ''cadence'')"
    and pm: "number_or_null (get_field kvs ''pitch_mean'')"
    and ps: "number_or_null (get_field kvs ''pitch_std'')"
    using assms a by simp_all
  from opt_toFixed_number_or_null [OF c, of ts 1] obtain ct where
    ct: "opt_toFixed ts (get_field kvs ''cadence'') 1 = Inr ct"
      "get_field kvs ''cadence'' = JNull \<longrightarrow> ct = JUndefined"
      "\<forall>x. get_field kvs ''cadence'' = JNum x \<longrightarrow> ct = JStr (toFixed ts x 1)" by blast
  from opt_toFixed_number_or_null [OF pm, of ts 0] obtain pt where
    pt: "opt_toFixed ts (get_field kvs ''pitch_mean'') 0 = Inr pt"
      "get_field kvs ''pitch_mean'' = JNull \<longrightarrow> pt = JUndefined"
      "\<forall>x. get_field kvs ''pitch_mean'' = JNum x \<longrightarrow> pt = JStr (toFixed ts x 0)" by blast
  from opt_toFixed_number_or_null [OF ps, of ts 1] obtain pv where
    pv: "opt_toFixed ts (get_field kvs ''pitch_std'') 1 = Inr pv"
      "get_field kvs ''pitch_std'' = JNull \<longrightarrow> pv = JUndefined"
      "\<forall>x. get_field kvs ''pitch_std'' = JNum x \<longrightarrow> pv = JStr (toFixed ts x 1)" by blast
  have sh: "analysis_shape (JObj kvs)" using assms a by simp
  note r = render_results_obj [OF ct(1) pt(1) pv(1) shape_fields(4-8) [OF sh]]
  have "render_analysis ts a = Inr (Results \<lparr>cadence_text = js_or ct (JStr ''N/A''),
          pitch_text = js_or pt (JStr ''N/A''),
          coughs = js_or (get_field kvs ''cough_count'') (JNum 0),
          sneezes = js_or (get_field kvs ''sneeze_count'') (JNum 0),
          pitch_variation = js_or pv (JStr ''N/A''),
          tone = js_or (get_field kvs ''tone_quality'') (JStr ''Normal''),
          rate = js_or (get_field kvs ''speech_rate'') (JStr ''N/A''),
          insights = (if truthy (get_field kvs ''health_insights'')
                      then InsightsBlock (get_field kvs ''health_insights'')
                      else Falsy (get_field kvs ''health_insights''))\<rparr>)"
    (is "_ = Inr (Results ?p)")
    unfolding render_analysis_def a by (simp only: r truthy.simps if_True bindE_def sum.case)
  moreover have "member a ''cadence'' = Inr JNull \<longrightarrow> cadence_text ?p = JStr ''N/A''"
    using ct(2) by (simp add: a js_or_def)
  moreover have "member a ''cadence'' = Inr (JNum 0) \<longrightarrow> cadence_text ?p = JStr ''0.0''"
    using ct(3) by (simp add: a js_or_def toFixed_zero_Suc)
  moreover have "member a ''pitch_mean'' = Inr JNull \<longrightarrow> pitch_text ?p = JStr ''N/A''"
    using pt(2) by (simp add: a js_or_def)
  moreover have "member a ''pitch_mean'' = Inr (JNum 0) \<longrightarrow> pitch_text ?p = JStr ''0''"
    using pt(3) by (simp add: a js_or_def toFixed_zero_0)
  moreover have "member a ''pitch_std'' = Inr JNull \<longrightarrow> pitch_variation ?p = JStr ''N/A''"
    using pv(2) by (simp add: a js_or_def)
  moreover have "member a ''pitch_std'' = Inr (JNum 0) \<longrightarrow> pitch_variation ?p = JStr ''0.0''"
    using pv(3) by (simp add: a js_or_def toFixed_zero_Suc)
  moreover have "member a ''cough_count'' = Inr (JNum 0) \<longrightarrow> coughs ?p = JNum 0"
    by (simp add: a js_or_def)
  moreover have "member a ''sneeze_count'' = Inr (JNum 0) \<longrightarrow> sneezes ?p = JNum 0"
    by (simp add: a js_or_def)
  ultimately show ?thesis by blast
qed

lemma example_result_shape: "analysis_shape example_result"
  by (simp add: example_result_def result_fields_def get_field_def)

lemma example_result_members:
  "member example_result ''cadence'' = Inr JNull"
  "member example_result ''pitch_mean'' = Inr (JNum 0)"
  "member example_result ''pitch_std'' = Inr (JNum 0)"
  "member example_result ''cough_count'' = Inr (JNum 0)"
  "member example_result ''sneeze_count'' = Inr (JNum 0)"
  by (simp_all add: example_result_def get_field_def)

theorem null_and_zero_rendered_apart_witness:
  "analysis_shape example_result \<and>
   (\<exists>p. render_analysis example_toString example_result = Inr (Results p) \<and>
      cadence_text p = JStr ''N/A'' \<and> pitch_text p = JStr ''0'' \<and>
      pitch_variation p = JStr ''0.0'' \<and> coughs p = JNum 0 \<and> sneezes p = JNum 0)"
  using null_and_zero_rendered_apart [OF example_result_shape, of example_toString]
    example_result_shape
  by (simp only: example_result_members simp_thms) blast

subsection \<open>analyzeAudio on success\<close>



















subsection \<open>The fields of the analysis record\<close>

lemma to_json_keys: "json_keys (to_json r) = result_fields"
  by (simp add: to_json_def result_fields_def)

lemma to_json_member:
  "member (to_json r) ''cadence'' = Inr (number_json (cadence r))"
  "member (to_json r) ''pitch_mean'' = Inr (number_json (pitch_mean r))"
  "member (to_json r) ''pitch_std'' = Inr (number_json (pitch_std r))"
  "member (to_json r) ''cough_count'' = Inr (JNum (of_int (cough_count r)))"
  "member (to_json r) ''sneeze_count'' = Inr (JNum (of_int (sneeze_count r)))"
  "member (to_json r) ''tone_quality'' = Inr (JStr (tone_quality r))"
  "member (to_json r) ''speech_rate'' = Inr (JStr (speech_rate r))"
  "member (to_json r) ''health_insights'' = Inr (JStr (health_insights r))"
  by (simp_all add: to_json_def get_field_def)

lemma number_or_null_number_json: "number_or_null (number_json x)"
  by (cases x) simp_all

lemma to_json_shape: "analysis_shape (to_json r)"
proof -
  have keys: "list_all (\<lambda>k. k \<in> set result_fields) (json_keys (to_json r))"
    unfolding to_json_keys by (simp add: list_all_iff)
  obtain kvs where kvs: "to_json r = JObj kvs" by (simp add: to_json_def)
  have f: "get_field kvs k = v" if "member (to_json r) k = Inr v" for k v
    using that by (simp add: kvs)
  show ?thesis
    unfolding kvs analysis_shape.simps
    using keys
    by (simp add: f [OF to_json_member(1)] f [OF to_json_member(2)] f [OF to_json_member(3)]
        f [OF to_json_member(4)] f [OF to_json_member(5)] f [OF to_json_member(6)]
        f [OF to_json_member(7)] f [OF to_json_member(8)] number_or_null_number_json kvs)
qed

lemma render_results_depends_on_fields:
  assumes "\<forall>k\<in>set result_fields. get_field kvs k = get_field kvs' k"
  shows "render_results ts (JObj kvs) = render_results ts (JObj kvs')"
proof -
  from assms have
    "get_field kvs ''cadence'' = get_field kvs' ''cadence''"
    "get_field kvs ''pitch_mean'' = get_field kvs' ''pitch_mean''"
    "get_field kvs ''pitch_std'' = get_field kvs' ''pitch_std''"
    "get_field kvs ''cough_count'' = get_field kvs' ''cough_count''"
    "get_field kvs ''sneeze_count'' = get_field kvs' ''sneeze_count''"
    "get_field kvs ''tone_quality'' = get_field kvs' ''tone_quality''"
    "get_field kvs ''speech_rate'' = get_field kvs' ''speech_rate''"
    "get_field kvs ''health_insights'' = get_field kvs' ''health_insights''"
    by (simp_all add: result_fields_def)
  then show ?thesis
    unfolding render_results_def panel_values_def by (simp only: member.simps)
qed

lemma render_empty:
  "render_results ts (JObj []) =
     Inr \<lparr>cadence_text = JStr ''N/A'', pitch_text = JStr ''N/A'', coughs = JNum 0,
          sneezes = JNum 0, pitch_variation = JStr ''N/A'', tone = JStr ''Normal'',
          rate = JStr ''N/A'', insights = Falsy JUndefined\<rparr>"
  by (simp add: render_results_def panel_values_def valid_children_def bindE_def get_field_def js_or_def)

lemma reads_cadence:
  "render_results ts (JObj [(''cadence'', JNum 0)]) \<noteq> render_results ts (JObj [])"
  unfolding render_empty
  by (simp add: render_results_def panel_values_def valid_children_def bindE_def get_field_def js_or_def toFixed_zero_Suc)

lemma reads_pitch_mean:
  "render_results ts (JObj [(''pitch_mean'', JNum 0)]) \<noteq> render_results ts (JObj [])"
  unfolding render_empty
  by (simp add: render_results_def panel_values_def valid_children_def bindE_def get_field_def js_or_def toFixed_zero_0)

lemma reads_pitch_std:
  "render_results ts (JObj [(''pitch_std'', JNum 0)]) \<noteq> render_results ts (JObj [])"
  unfolding render_empty
  by (simp add: render_results_def panel_values_def valid_children_def bindE_def get_field_def js_or_def toFixed_zero_Suc)

lemma reads_cough_count:
  "render_results ts (JObj [(''cough_count'', JNum 1)]) \<noteq> render_results ts (JObj [])"
  unfolding render_empty
  by (simp add: render_results_def panel_values_def valid_children_def bindE_def get_field_def js_or_def)

lemma reads_sneeze_count:
  "render_results ts (JObj [(''sneeze_count'', JNum 1)]) \<noteq> render_results ts (JObj [])"
  unfolding render_empty
  by (simp add: render_results_def panel_values_def valid_children_def bindE_def get_field_def js_or_def)

lemma reads_tone_quality:
  "render_results ts (JObj [(''tone_quality'', JStr ''Stable'')]) \<noteq> render_results ts (JObj [])"
  unfolding render_empty
  by (simp add: render_results_def panel_values_def valid_children_def bindE_def get_field_def js_or_def)

lemma reads_speech_rate:
  "render_results ts (JObj [(''speech_rate'', JStr ''Fast'')]) \<noteq> render_results ts (JObj [])"
  unfolding render_empty
  by (simp add: render_results_def panel_values_def valid_children_def bindE_def get_field_def js_or_def)

lemma reads_health_insights:
  "render_results ts (JObj [(''health_insights'', JStr ''Rest.'')]) \<noteq> render_results ts (JObj [])"
  unfolding render_empty
  by (simp add: render_results_def panel_values_def valid_children_def bindE_def get_field_def js_or_def)

text \<open>
  C1. The serialized analysis record has exactly the eight fields \<open>result_fields\<close>, with
  the types of section 6, and these are exactly the fields the component reads when it
  renders a result: the panel is the same for two objects that agree on them, and each
  of them changes the panel of some object.
\<close>

theorem result_fields_are_the_fields_read:
  "json_keys (to_json r) = result_fields \<and> analysis_shape (to_json r) \<and>
   (\<forall>kvs kvs'. (\<forall>k\<in>set result_fields. get_field kvs k = get_field kvs' k) \<longrightarrow>
      render_results ts (JObj kvs) = render_results ts (JObj kvs')) \<and>
   (\<forall>k\<in>set result_fields. \<exists>v kvs.
      render_results ts (JObj ((k, v) # kvs)) \<noteq> render_results ts (JObj kvs))"
proof -
  have "\<forall>k\<in>set result_fields. \<exists>v kvs.
      render_results ts (JObj ((k, v) # kvs)) \<noteq> render_results ts (JObj kvs)"
    unfolding result_fields_def
    using reads_cadence [of ts] reads_pitch_mean [of ts] reads_pitch_std [of ts]
      reads_cough_count [of ts] reads_sneeze_count [of ts] reads_tone_quality [of ts]
      reads_speech_rate [of ts] reads_health_insights [of ts]
    by (simp only: list.set ball_simps) blast
  then show ?thesis
    using to_json_keys to_json_shape render_results_depends_on_fields by blast
qed

theorem result_fields_are_the_fields_read_witness:
  "json_keys (to_json (assemble example_config None [] [])) = result_fields \<and>
   analysis_shape (to_json (assemble example_config None [] [])) \<and>
   render_results example_toString (JObj [(''note'', JStr ''x''), (''cough_count'', JNum 2)]) =
     render_results example_toString (JObj [(''cough_count'', JNum 2)]) \<and>
   ''cough_count'' \<in> set result_fields \<and>
   (\<exists>v kvs. render_results example_toString (JObj ((''cough_count'', v) # kvs)) \<noteq>
      render_results example_toString (JObj kvs))"
proof -
  have same: "\<forall>k\<in>set result_fields.
      get_field [(''note'', JStr ''x''), (''cough_count'', JNum 2)] k =
      get_field [(''cough_count'', JNum 2)] k"
    by (simp add: result_fields_def get_field_def)
  have mem: "''cough_count'' \<in> set result_fields"
    by (simp add: result_fields_def)
  from result_fields_are_the_fields_read [of "assemble example_config None [] []" example_toString]
  show ?thesis using same mem by blast
qed

subsection \<open>Silent input\<close>





lemma nothing_crossed: "\<not> crossed tr None None None 0 0"
proof (cases tr)
  case (CountAbove c n)
  then show ?thesis by (cases c) simp_all
next
  case (MeasureAbove m t)
  then show ?thesis by (cases m) simp_all
next
  case (MeasureBelow m t)
  then show ?thesis by (cases m) simp_all
qed

lemma insight_text_nothing: "insight_text cfg None None None 0 0 = baseline_insight cfg"
  by (simp add: insight_text_def nothing_crossed)

lemma assemble_nothing:
  "assemble cfg None [] [] =
     \<lparr>cadence = None, pitch_mean = None, pitch_std = None, cough_count = 0, sneeze_count = 0,
      tone_quality = ''Normal'', speech_rate = ''unavailable'',
      health_insights = baseline_insight cfg\<rparr>"
  by (simp add: assemble_def pitch_mean_of_def pitch_std_of_def tally_def tone_label_def
      insight_text_nothing)




subsection \<open>No voiced frame\<close>

lemma voiced_f0_none:
  assumes "list_all (\<lambda>fr. \<not> isVoiced fr) fs"
  shows "voiced_f0 fs = []"
  using assms by (induction fs) (simp_all add: voiced_f0_def List.map_filter_simps)

lemma analyze_voice_pitch_none:
  assumes "analyze_voice stages cfg w = Inr r"
    and "list_all (\<lambda>fr. \<not> isVoiced fr) (engine_frames stages cfg w)"
  shows "pitch_mean r = None \<and> pitch_std r = None"
proof (cases "peak_amplitude (remove_dc (samples w)) = 0")
  case True
  with assms(1) have "r = assemble cfg None [] []"
    by (simp add: analyze_voice_def split: if_splits)
  then show ?thesis by (simp add: assemble_nothing)
next
  case False
  with assms(1) have "r = assemble cfg (cadence_estimator stages (engine_frames stages cfg w))
      (voiced_f0 (engine_frames stages cfg w)) (event_detector stages (engine_frames stages cfg w))"
    by (simp add: analyze_voice_def Let_def split: if_splits)
  then show ?thesis
    by (simp add: assemble_def voiced_f0_none [OF assms(2)] pitch_mean_of_def pitch_std_of_def)
qed

text \<open>
  C6. When the engine returns a result and no frame is voiced, pitch_mean and pitch_std
  are unavailable: they serialize to \<^verbatim>\<open>null\<close>, not to a number, and the component
  shows "N/A" for both.
\<close>

theorem no_voiced_frame_pitch_unavailable:
  assumes "analyze_voice stages cfg w = Inr r"
    and "list_all (\<lambda>fr. \<not> isVoiced fr) (engine_frames stages cfg w)"
  shows "pitch_mean r = None \<and> pitch_std r = None \<and>
     member (to_json r) ''pitch_mean'' = Inr JNull \<and>
     member (to_json r) ''pitch_std'' = Inr JNull \<and>
     (\<exists>p. render_analysis ts (to_json r) = Inr (Results p) \<and>
        pitch_text p = JStr ''N/A'' \<and> pitch_variation p = JStr ''N/A'')"
proof -
  from analyze_voice_pitch_none [OF assms]
  have none: "pitch_mean r = None" "pitch_std r = None" by simp_all
  have m: "member (to_json r) ''pitch_mean'' = Inr JNull"
    "member (to_json r) ''pitch_std'' = Inr JNull"
    by (simp_all add: to_json_member none)
  obtain kvs where kvs: "to_json r = JObj kvs" by (simp add: to_json_def)
  have pt: "opt_toFixed ts (get_field kvs ''pitch_mean'') 0 = Inr JUndefined"
    and pv: "opt_toFixed ts (get_field kvs ''pitch_std'') 1 = Inr JUndefined"
    using m by (simp_all add: kvs)
  have "number_or_null (get_field kvs ''cadence'')"
    using to_json_member(1) [of r] by (simp add: kvs number_or_null_number_json)
  from opt_toFixed_number_or_null [OF this, of ts 1] obtain ct where
    ct: "opt_toFixed ts (get_field kvs ''cadence'') 1 = Inr ct" by blast
  have valid: "valid_child (get_field kvs ''cough_count'')"
    "valid_child (get_field kvs ''sneeze_count'')"
    "valid_child (get_field kvs ''tone_quality'')"
    "valid_child (get_field kvs ''speech_rate'')"
    "valid_child (get_field kvs ''health_insights'')"
    using to_json_member(4-8) [of r] by (simp_all add: kvs)
  have "\<exists>p. render_analysis ts (to_json r) = Inr (Results p) \<and>
        pitch_text p = JStr ''N/A'' \<and> pitch_variation p = JStr ''N/A''"
    unfolding kvs render_analysis_def
    by (simp add: render_results_obj [OF ct pt pv valid] bindE_def js_or_def)
  with none m show ?thesis by blast
qed

theorem no_voiced_frame_pitch_unavailable_witness:
  "analyze_voice example_stages example_config \<lparr>samples = [1, - 1], sample_rate = 16000\<rparr> =
     Inr \<lparr>cadence = None, pitch_mean = None, pitch_std = None, cough_count = 0, sneeze_count = 0,
          tone_quality = ''Normal'', speech_rate = ''unavailable'',
          health_insights = ''No notable findings.''\<rparr> \<and>
   list_all (\<lambda>fr. \<not> isVoiced fr)
     (engine_frames example_stages example_config \<lparr>samples = [1, - 1], sample_rate = 16000\<rparr>) \<and>
   engine_frames example_stages example_config \<lparr>samples = [1, - 1], sample_rate = 16000\<rparr> \<noteq> [] \<and>
   member (to_json \<lparr>cadence = None, pitch_mean = None, pitch_std = None, cough_count = 0,
       sneeze_count = 0, tone_quality = ''Normal'', speech_rate = ''unavailable'',
       health_insights = ''No notable findings.''\<rparr>) ''pitch_mean'' = Inr JNull \<and>
   member (to_json \<lparr>cadence = None, pitch_mean = None, pitch_std = None, cough_count = 0,
       sneeze_count = 0, tone_quality = ''Normal'', speech_rate = ''unavailable'',
       health_insights = ''No notable findings.''\<rparr>) ''pitch_std'' = Inr JNull \<and>
   (\<exists>p. render_analysis example_toString
      (to_json \<lparr>cadence = None, pitch_mean = None, pitch_std = None, cough_count = 0,
       sneeze_count = 0, tone_quality = ''Normal'', speech_rate = ''unavailable'',
       health_insights = ''No notable findings.''\<rparr>) = Inr (Results p) \<and>
      pitch_text p = JStr ''N/A'' \<and> pitch_variation p = JStr ''N/A'')"
proof -
  have dc: "remove_dc [1, - 1] = [1, - 1]"
    by (simp add: remove_dc_def mean_def)
  have pk: "peak_amplitude [1, - 1] = 1"
    by (simp add: peak_amplitude_def)
  have fr: "engine_frames example_stages example_config \<lparr>samples = [1, - 1], sample_rate = 16000\<rparr> =
      [\<lparr>energy = 1, isVoiced = False, f0 = None, spectralFlatness = 1\<rparr>,
       \<lparr>energy = 1, isVoiced = False, f0 = None, spectralFlatness = 1\<rparr>]"
    by (simp add: engine_frames_def dc pk example_stages_def example_config_def)
  have cfg: "min_sample_rate example_config = 4000"
    "baseline_insight example_config = ''No notable findings.''"
    by (simp_all add: example_config_def)
  have st: "cadence_estimator example_stages fs = None" "event_detector example_stages fs = []" for fs
    by (simp_all add: example_stages_def)
  have "analyze_voice example_stages example_config \<lparr>samples = [1, - 1], sample_rate = 16000\<rparr> =
     Inr (assemble example_config None [] [])"
    by (simp add: analyze_voice_def dc pk fr Let_def voiced_f0_def List.map_filter_simps cfg st)
  then have run: "analyze_voice example_stages example_config \<lparr>samples = [1, - 1], sample_rate = 16000\<rparr> =
     Inr \<lparr>cadence = None, pitch_mean = None, pitch_std = None, cough_count = 0, sneeze_count = 0,
          tone_quality = ''Normal'', speech_rate = ''unavailable'',
          health_insights = ''No notable findings.''\<rparr>"
    by (simp only: assemble_nothing cfg)
  have unv: "list_all (\<lambda>fr. \<not> isVoiced fr)
     (engine_frames example_stages example_config \<lparr>samples = [1, - 1], sample_rate = 16000\<rparr>)"
    by (simp add: fr)
  from no_voiced_frame_pitch_unavailable [OF run unv, of example_toString]
  show ?thesis using run unv by (simp add: fr)
qed

end
